theory Spec2Isabelle
  imports Main "HOL-Library.Sublist" "HOL-Library.List_Lexorder" "HOL-Library.Multiset"
    "HOL-Library.AList"
begin

section \<open>The test-case formatter \<^verbatim>\<open>scripts/format_testcases.py\<close>\<close>

text \<open>
  The script reads \<^verbatim>\<open>test-cases-response.json\<close>, writes one Markdown file per record into
  \<^verbatim>\<open>test-cases/\<close> and an index \<^verbatim>\<open>INDEX.md\<close> beside them. The embedding follows the script
  function by function: \<open>format_timestamp\<close>, \<open>format_test_case\<close>, \<open>create_index\<close>, \<open>main\<close>
  and the two calls of \<open>main\<close> at the end of the file.

  Modelling decisions.
  \<^item> A Python \<open>str\<close> is a list of Unicode code points (\<open>nat list\<close>): comparison of two
    strings is lexicographic on code points, \<open>split\<close> and \<open>strip\<close> work per code point.
  \<^item> A record of the response is a dictionary whose keys are known; it becomes a
    \<^theory_text>\<open>record\<close> whose fields are \<open>option\<close>s, \<open>None\<close> for a key that is absent
    (\<open>d.get(k, default)\<close> is a \<open>case\<close> on the field). A field that is present carries a
    value of the type the response format gives it; JSON \<open>null\<close> and values of another type
    are outside the model. \<open>createdBy\<close> and \<open>modifiedBy\<close> are dictionaries from strings to
    strings and stay association lists, since the script tests them for emptiness.
  \<^item> The response and its \<open>data\<close> object are lists of items in the order of the file, one item
    per key, so that the key listings of the script come out in that order.
  \<^item> \<open>datetime.fromisoformat\<close> is library code: it is the parameter \<open>parse\<close>, \<open>None\<close> where
    the library raises. \<open>strftime\<close> is modelled for the one format string the script uses,
    as CPython on glibc prints it. The clock (\<open>datetime.utcnow()\<close>) is the parameter \<open>now\<close>.
  \<^item> The input file is given by what reading it yields: it is missing, reading it raises,
    the decoder rejects it, or the decoder returns a response.
  \<^item> The file system is an association list from absolute paths (lists of encoded file
    names) to nodes, a directory or a file with its text, in the order in which a directory
    lists its entries; the working directory is the parameter \<open>cwd\<close>. There are no symbolic
    links and no permissions.
  \<^item> Console output is a list of messages, one constructor per \<open>print\<close> of the script;
    standard output is UTF-8 with strict error handling.
\<close>

subsection \<open>Strings\<close>

type_synonym ustr = "nat list"

abbreviation (input) lit :: "string \<Rightarrow> ustr" where
  "lit s \<equiv> map of_char s"

text \<open>The newline character, and the two status icons (U+1F6AB and U+2705).\<close>

definition nl :: ustr where
  "nl = [10]"

definition icon_disabled :: ustr where
  "icon_disabled = [128683]"

definition icon_enabled :: ustr where
  "icon_enabled = [9989]"

text \<open>\<open>sep.join(xs)\<close>\<close>

fun join :: "ustr \<Rightarrow> ustr list \<Rightarrow> ustr" where
  "join sep [] = []"
| "join sep [x] = x"
| "join sep (x # y # ys) = x @ sep @ join sep (y # ys)"

text \<open>\<open>s.split(c)\<close> for a separator of one character: \<open>n\<close> separators give \<open>n + 1\<close> pieces.\<close>

fun split_on :: "nat \<Rightarrow> ustr \<Rightarrow> ustr list" where
  "split_on c [] = [[]]"
| "split_on c (x # xs) =
     (if x = c then [] # split_on c xs
      else (case split_on c xs of [] \<Rightarrow> [[x]] | l # ls \<Rightarrow> (x # l) # ls))"

text \<open>
  The characters \<open>str.isspace\<close> holds of, which are the ones \<open>str.strip()\<close> removes:
  U+0009..U+000D, U+001C..U+0020, U+0085, U+00A0, U+1680, U+2000..U+200A, U+2028, U+2029,
  U+202F, U+205F, U+3000.
\<close>

definition isspace :: "nat \<Rightarrow> bool" where
  "isspace c \<longleftrightarrow>
     (9 \<le> c \<and> c \<le> 13) \<or> (28 \<le> c \<and> c \<le> 32) \<or> c = 133 \<or> c = 160 \<or> c = 5760 \<or>
     (8192 \<le> c \<and> c \<le> 8202) \<or> c = 8232 \<or> c = 8233 \<or> c = 8239 \<or> c = 8287 \<or> c = 12288"

definition strip :: "ustr \<Rightarrow> ustr" where
  "strip s = rev (dropWhile isspace (rev (dropWhile isspace s)))"

text \<open>\<open>s.replace('Z', '+00:00')\<close>: every \<open>Z\<close> (code point 90) is replaced.\<close>

definition replace_Z :: "ustr \<Rightarrow> ustr" where
  "replace_Z s = concat (map (\<lambda>c. if c = 90 then lit ''+00:00'' else [c]) s)"

text \<open>\<open>str(n)\<close> for an integer: decimal digits, a minus sign for a negative number.\<close>

fun str_nat :: "nat \<Rightarrow> ustr" where
  "str_nat n = (if n < 10 then [48 + n] else str_nat (n div 10) @ [48 + n mod 10])"

declare str_nat.simps [simp del]


subsection \<open>Timestamps\<close>

text \<open>
  The fields of a \<open>datetime\<close> that the format string \<^verbatim>\<open>%Y-%m-%d %H:%M:%S UTC\<close> reads. The
  microsecond and the time zone of the value are not printed: the trailing \<open>UTC\<close> is a
  literal of the format string.
\<close>

record datetime =
  year :: nat
  month :: nat
  day :: nat
  hour :: nat
  minute :: nat
  second :: nat

text \<open>The ranges every \<open>datetime\<close> value of the library lies in.\<close>

definition valid_datetime :: "datetime \<Rightarrow> bool" where
  "valid_datetime dt \<longleftrightarrow>
     1 \<le> year dt \<and> year dt \<le> 9999 \<and> 1 \<le> month dt \<and> month dt \<le> 12 \<and>
     1 \<le> day dt \<and> day dt \<le> 31 \<and> hour dt \<le> 23 \<and> minute dt \<le> 59 \<and> second dt \<le> 59"

text \<open>A decimal number padded with zeros to the width \<open>w\<close>.\<close>

definition zpad :: "nat \<Rightarrow> nat \<Rightarrow> ustr" where
  "zpad w n = replicate (w - length (str_nat n)) 48 @ str_nat n"

text \<open>
  \<open>dt.strftime('%Y-%m-%d %H:%M:%S UTC')\<close>. The C library pads month, day, hour, minute
  and second to two digits; glibc prints the year of \<open>%Y\<close> without padding.
\<close>

definition strftime :: "datetime \<Rightarrow> ustr" where
  "strftime dt =
     str_nat (year dt) @ lit ''-'' @ zpad 2 (month dt) @ lit ''-'' @ zpad 2 (day dt) @ lit '' '' @
     zpad 2 (hour dt) @ lit '':'' @ zpad 2 (minute dt) @ lit '':'' @ zpad 2 (second dt) @
     lit '' UTC''"

text \<open>
  \<open>format_timestamp\<close>: \<open>None\<close> is the absent value that \<open>test_case.get('createdAt')\<close>
  gives; the bare \<open>except\<close> returns the input when the library refuses it.
\<close>

definition format_timestamp :: "(ustr \<Rightarrow> datetime option) \<Rightarrow> ustr option \<Rightarrow> ustr" where
  "format_timestamp parse timestamp_str =
     (case timestamp_str of
        None \<Rightarrow> lit ''N/A''
      | Some s \<Rightarrow>
          if s = [] then lit ''N/A''
          else (case parse (replace_Z s) of
                  Some dt \<Rightarrow> strftime dt
                | None \<Rightarrow> s))"

text \<open>The shape \<open>YYYY-MM-DD HH:MM:SS UTC\<close>: 23 characters, digits where the letters are.\<close>

definition is_digit :: "nat \<Rightarrow> bool" where
  "is_digit c \<longleftrightarrow> 48 \<le> c \<and> c \<le> 57"

fun fixed_pattern :: "ustr \<Rightarrow> bool" where
  "fixed_pattern [y1, y2, y3, y4, a, m1, m2, b, d1, d2, c, h1, h2, d, n1, n2, e, s1, s2, f, g, h, i] =
     (is_digit y1 \<and> is_digit y2 \<and> is_digit y3 \<and> is_digit y4 \<and> a = 45 \<and>
      is_digit m1 \<and> is_digit m2 \<and> b = 45 \<and> is_digit d1 \<and> is_digit d2 \<and> c = 32 \<and>
      is_digit h1 \<and> is_digit h2 \<and> d = 58 \<and> is_digit n1 \<and> is_digit n2 \<and> e = 58 \<and>
      is_digit s1 \<and> is_digit s2 \<and> [f, g, h, i] = lit '' UTC'')"
| "fixed_pattern _ = False"

subsection \<open>Records of the response\<close>

record test_case =
  uuid :: "ustr option"
  description :: "ustr option"
  disabled :: "bool option"
  createdAt :: "ustr option"
  modifiedAt :: "ustr option"
  createdBy :: "(ustr \<times> ustr) list option"
  modifiedBy :: "(ustr \<times> ustr) list option"
  labels :: "ustr list option"
  customSteps :: "ustr option"

text \<open>\<open>d.get(k, default)\<close> on a field, and on a dictionary kept as an association list.\<close>

definition get_or :: "'a option \<Rightarrow> 'a \<Rightarrow> 'a" where
  "get_or v dflt = (case v of None \<Rightarrow> dflt | Some x \<Rightarrow> x)"

definition dict_get :: "(ustr \<times> ustr) list \<Rightarrow> ustr \<Rightarrow> ustr \<Rightarrow> ustr" where
  "dict_get d k dflt = (case map_of d k of None \<Rightarrow> dflt | Some x \<Rightarrow> x)"













subsection \<open>Rendering one record\<close>

text \<open>
  \<open>format_test_case\<close> appends to the list \<open>content\<close> and joins it with newlines. The list
  is \<open>format_lines\<close>, its segments follow the blocks of the function: title, metadata,
  creator, modification, labels, steps.
\<close>

definition title_line :: "test_case \<Rightarrow> ustr" where
  "title_line tc = lit ''# '' @ get_or (description tc) (lit ''Untitled Test Case'') @ nl"

definition uuid_line :: "test_case \<Rightarrow> ustr" where
  "uuid_line tc = lit ''- **UUID**: `'' @ get_or (uuid tc) (lit ''N/A'') @ lit ''`''"

definition status_line :: "test_case \<Rightarrow> ustr" where
  "status_line tc =
     lit ''- **Status**: '' @
     (if disabled tc = Some True then icon_disabled @ lit '' Disabled''
      else icon_enabled @ lit '' Enabled'')"

definition created_line :: "(ustr \<Rightarrow> datetime option) \<Rightarrow> test_case \<Rightarrow> ustr" where
  "created_line parse tc = lit ''- **Created**: '' @ format_timestamp parse (createdAt tc)"

text \<open>\<open>name (email)\<close> of a creator or modifier dictionary.\<close>

definition person :: "(ustr \<times> ustr) list \<Rightarrow> ustr" where
  "person d =
     dict_get d (lit ''name'') (lit ''N/A'') @ lit '' ('' @
     dict_get d (lit ''email'') (lit ''N/A'') @ lit '')''"

text \<open>\<open>created_by = test_case.get('createdBy', {})\<close>; an empty dictionary is false.\<close>

definition created_by_lines :: "test_case \<Rightarrow> ustr list" where
  "created_by_lines tc =
     (let created_by = get_or (createdBy tc) []
      in if created_by \<noteq> [] then [lit ''- **Created By**: '' @ person created_by] else [])"

text \<open>\<open>if test_case.get('modifiedAt')\<close>: absent and empty are both false.\<close>

definition modified_lines :: "(ustr \<Rightarrow> datetime option) \<Rightarrow> test_case \<Rightarrow> ustr list" where
  "modified_lines parse tc =
     (if get_or (modifiedAt tc) [] \<noteq> [] then
        [lit ''- **Modified**: '' @ format_timestamp parse (modifiedAt tc)] @
        (let modified_by = get_or (modifiedBy tc) []
         in if modified_by \<noteq> [] then [lit ''- **Modified By**: '' @ person modified_by] else [])
      else [])"

definition labels_lines :: "test_case \<Rightarrow> ustr list" where
  "labels_lines tc =
     (let ls = get_or (labels tc) []
      in if ls \<noteq> [] then [lit ''- **Labels**: '' @ join (lit '', '') ls] else [])"

definition steps_lines :: "test_case \<Rightarrow> ustr list" where
  "steps_lines tc =
     (let custom_steps = get_or (customSteps tc) []
      in if custom_steps \<noteq> [] then [lit ''```'', custom_steps, lit ''```'']
         else [lit ''*No steps defined*''])"

definition format_lines :: "(ustr \<Rightarrow> datetime option) \<Rightarrow> test_case \<Rightarrow> ustr list" where
  "format_lines parse tc =
     [title_line tc, lit ''## Metadata'' @ nl, uuid_line tc, status_line tc, created_line parse tc] @
     created_by_lines tc @ modified_lines parse tc @ labels_lines tc @
     [[], lit ''## Test Steps'' @ nl] @ steps_lines tc @ [[]]"

definition format_test_case :: "(ustr \<Rightarrow> datetime option) \<Rightarrow> test_case \<Rightarrow> ustr" where
  "format_test_case parse tc = join nl (format_lines parse tc)"

subsection \<open>Rendering the index\<close>



text \<open>
  \<open>len([s for s in steps.split('\n') if s.strip()]) if steps else 0\<close>
\<close>

definition step_count :: "test_case \<Rightarrow> nat" where
  "step_count tc =
     (let steps = get_or (customSteps tc) []
      in if steps \<noteq> [] then length (filter (\<lambda>s. strip s \<noteq> []) (split_on 10 steps)) else 0)"

definition link :: "ustr \<Rightarrow> ustr" where
  "link u = lit ''./'' @ u @ lit ''.md''"

text \<open>The six lines of the entry of rank \<open>i\<close>.\<close>

definition index_entry :: "(ustr \<Rightarrow> datetime option) \<Rightarrow> nat \<times> test_case \<Rightarrow> ustr list" where
  "index_entry parse e =
     (case e of (i, tc) \<Rightarrow>
        let status_icon = (if disabled tc = Some True then icon_disabled else icon_enabled);
            desc = get_or (description tc) (lit ''Untitled'');
            u = get_or (uuid tc) (lit ''N/A'');
            created = format_timestamp parse (createdAt tc)
        in [lit ''## '' @ str_nat i @ lit ''. '' @ status_icon @ lit '' '' @ desc @ nl,
            lit ''- **UUID**: `'' @ u @ lit ''`'',
            lit ''- **File**: [`'' @ u @ lit ''.md`]('' @ link u @ lit '')'',
            lit ''- **Created**: '' @ created,
            lit ''- **Steps**: '' @ str_nat (step_count tc),
            []])"







subsection \<open>Encodings\<close>






subsection \<open>The file system\<close>

datatype node = Dir | File ustr

type_synonym path = "nat list list"

type_synonym fs = "(path \<times> node) list"












subsection \<open>The run\<close>













subsection \<open>Notions used in the statements\<close>



text \<open>
  A record passes the test \<open>if not uuid: continue\<close> of the loop when its uuid is present
  and not empty; its file is named after the uuid.
\<close>

definition has_uuid :: "test_case \<Rightarrow> bool" where
  "has_uuid tc \<longleftrightarrow> get_or (uuid tc) [] \<noteq> []"

definition file_name :: "test_case \<Rightarrow> ustr" where
  "file_name tc = get_or (uuid tc) [] @ lit ''.md''"







text \<open>The content of the file at a path, \<open>None\<close> when there is no file.\<close>

definition file_at :: "fs \<Rightarrow> path \<Rightarrow> ustr option" where
  "file_at fs p = (case map_of fs p of Some (File t) \<Rightarrow> Some t | _ \<Rightarrow> None)"

text \<open>The files of the records, put into a map from paths to nodes one after the other.\<close>

fun put :: "(ustr \<Rightarrow> datetime option) \<Rightarrow> path \<Rightarrow> test_case list \<Rightarrow> (path \<rightharpoonup> node) \<Rightarrow> (path \<rightharpoonup> node)" where
  "put parse d [] m = m"
| "put parse d (tc # tcs) m =
     put parse d tcs
       (if has_uuid tc then m(d @ [file_name tc] \<mapsto> File (format_test_case parse tc)) else m)"






subsection \<open>Sample inputs\<close>

text \<open>
  A parser that accepts two timestamps, a clock value, a working directory that holds
  nothing, and a few records: \<open>rec_a\<close> and \<open>rec_b\<close> carry a uuid, \<open>rec_n\<close> has none, \<open>rec_c\<close>
  repeats the uuid of \<open>rec_a\<close>, \<open>rec_x\<close> and \<open>rec_y\<close> share the uuid \<open>INDEX\<close>; the uuids of
  \<open>rec_s\<close>, \<open>rec_e\<close> and \<open>rec_z\<close> contain a \<open>/\<close>.
\<close>

definition sample_parse :: "ustr \<Rightarrow> datetime option" where
  "sample_parse s =
     (if s = lit ''2024-01-15T10:30:00+00:00''
      then Some \<lparr>year = 2024, month = 1, day = 15, hour = 10, minute = 30, second = 0\<rparr>
      else if s = lit ''0999-01-01T00:00:00+00:00''
      then Some \<lparr>year = 999, month = 1, day = 1, hour = 0, minute = 0, second = 0\<rparr>
      else None)"




definition blank :: test_case where
  "blank = \<lparr>uuid = None, description = None, disabled = None, createdAt = None,
     modifiedAt = None, createdBy = None, modifiedBy = None, labels = None, customSteps = None\<rparr>"

definition rec_a :: test_case where
  "rec_a = blank\<lparr>uuid := Some (lit ''a1''), description := Some (lit ''Login''),
     createdAt := Some (lit ''2024-01-15T10:30:00Z''),
     customSteps := Some (lit ''step1'' @ nl @ lit ''step2'' @ nl @ nl @ lit ''step3'')\<rparr>"



definition rec_c :: test_case where
  "rec_c = blank\<lparr>uuid := Some (lit ''a1''), description := Some (lit ''Logout'')\<rparr>"

definition rec_x :: test_case where
  "rec_x = blank\<lparr>uuid := Some (lit ''INDEX''), description := Some (lit ''First'')\<rparr>"

definition rec_y :: test_case where
  "rec_y = blank\<lparr>uuid := Some (lit ''INDEX''), description := Some (lit ''Second'')\<rparr>"


definition rec_e :: test_case where
  "rec_e = blank\<lparr>uuid := Some (lit ''../escape'')\<rparr>"

definition rec_z :: test_case where
  "rec_z = blank\<lparr>uuid := Some (lit ''./a1''), description := Some (lit ''Alias'')\<rparr>"


section \<open>Properties\<close>
















lemma str_nat_digits: "c \<in> set (str_nat n) \<Longrightarrow> is_digit c"
proof (induction n arbitrary: c rule: str_nat.induct)
  case (1 n)
  show ?case
  proof (cases "n < 10")
    case True
    with "1.prems" show ?thesis by (simp add: str_nat.simps [of n] is_digit_def)
  next
    case False
    have "n mod 10 < 10" by simp
    then have "is_digit (48 + n mod 10)" unfolding is_digit_def by linarith
    with False "1.prems" "1.IH" show ?thesis
      by (auto simp: str_nat.simps [of n])
  qed
qed

lemma length_str_nat: "n < 10 ^ k \<Longrightarrow> 0 < k \<Longrightarrow> length (str_nat n) \<le> k"
proof (induction n arbitrary: k rule: str_nat.induct)
  case (1 n)
  show ?case
  proof (cases "n < 10")
    case True
    with "1.prems" show ?thesis by (simp add: str_nat.simps [of n])
  next
    case False
    from "1.prems" obtain k' where k: "k = Suc k'" by (cases k) auto
    with "1.prems" have lt: "n div 10 < 10 ^ k'"
      by (simp add: less_mult_imp_div_less mult.commute)
    from False lt have "0 < k'" by (cases k') auto
    from "1.IH" [OF False lt this] k False show ?thesis
      by (simp add: str_nat.simps [of n])
  qed
qed

lemma length_zpad: "n < 10 ^ w \<Longrightarrow> 0 < w \<Longrightarrow> length (zpad w n) = w"
  using length_str_nat [of n w] by (simp add: zpad_def)

lemma zpad_digits: "c \<in> set (zpad w n) \<Longrightarrow> is_digit c"
  using str_nat_digits [of c n] by (auto simp: zpad_def is_digit_def)

lemma zpad2:
  assumes "n < 100"
  obtains a b where "zpad 2 n = [a, b]" "is_digit a" "is_digit b"
proof -
  from assms have "length (zpad 2 n) = 2" using length_zpad [of n 2] by simp
  then obtain a b where ab: "zpad 2 n = [a, b]"
    by (auto simp: length_Suc_conv numeral_2_eq_2)
  then have "is_digit a" "is_digit b"
    using zpad_digits [of a 2 n] zpad_digits [of b 2 n] by simp_all
  with ab show ?thesis by (rule that)
qed

lemma strip_nonempty: "strip s \<noteq> [] \<longleftrightarrow> (\<exists>c \<in> set s. \<not> isspace c)"
proof
  assume "strip s \<noteq> []"
  then have "dropWhile isspace s \<noteq> []"
    by (cases "dropWhile isspace s") (simp_all add: strip_def)
  then show "\<exists>c \<in> set s. \<not> isspace c"
    using dropWhile_eq_Nil_conv [of isspace s] by blast
next
  assume "\<exists>c \<in> set s. \<not> isspace c"
  then have ne: "dropWhile isspace s \<noteq> []"
    using dropWhile_eq_Nil_conv [of isspace s] by blast
  then have "\<not> isspace (hd (dropWhile isspace s))"
    by (rule hd_dropWhile)
  moreover from ne have "hd (dropWhile isspace s) \<in> set (dropWhile isspace s)"
    by (rule hd_in_set)
  ultimately have "\<exists>c \<in> set (rev (dropWhile isspace s)). \<not> isspace c"
    by auto
  then have "dropWhile isspace (rev (dropWhile isspace s)) \<noteq> []"
    using dropWhile_eq_Nil_conv [of isspace "rev (dropWhile isspace s)"] by blast
  then show "strip s \<noteq> []" by (simp add: strip_def)
qed





lemma step_count_eq:
  "step_count tc =
     length (filter (\<lambda>l. \<exists>c \<in> set l. \<not> isspace c) (split_on 10 (get_or (customSteps tc) [])))"
  by (simp add: step_count_def Let_def strip_nonempty)

















































lemma put_untouched:
  "\<forall>tc \<in> set tcs. has_uuid tc \<longrightarrow> d @ [file_name tc] \<noteq> p \<Longrightarrow> put parse d tcs m p = m p"
  by (induction tcs arbitrary: m) auto





lemma file_at_map: "file_at fs p = (case map_of fs p of Some (File t) \<Rightarrow> Some t | _ \<Rightarrow> None)"
  by (simp add: file_at_def)
















section \<open>The claims\<close>









text \<open>
  C4, as stated, fails: a record without \<open>createdBy\<close> gets no creator line at all. The
  rendering of \<open>rec_b\<close>, which has no \<open>createdBy\<close>, does not contain the words
  \<open>Created By\<close>.
\<close>

text \<open>
  C6. The step count of a record is the number of lines of \<open>customSteps\<close>, split at
  newlines, that contain a character that is not whitespace; it is 0 when \<open>customSteps\<close>
  is absent or empty, and 3 for the lines \<open>step1\<close>, \<open>step2\<close>, an empty line and \<open>step3\<close>. It is the number shown in the
  fifth line of the record's index entry.
\<close>

theorem C6_step_count:
  "step_count tc =
     length (filter (\<lambda>l. \<exists>c \<in> set l. \<not> isspace c) (split_on 10 (get_or (customSteps tc) []))) \<and>
   step_count (tc\<lparr>customSteps := None\<rparr>) = 0 \<and>
   step_count (tc\<lparr>customSteps := Some []\<rparr>) = 0 \<and>
   step_count (tc\<lparr>customSteps := Some (lit ''step1'' @ nl @ lit ''step2'' @ nl @ nl @ lit ''step3'')\<rparr>) = 3 \<and>
   index_entry parse (i, tc) ! 4 = lit ''- **Steps**: '' @ str_nat (step_count tc)"
proof -
  have "step_count (tc\<lparr>customSteps := Some (lit ''step1'' @ nl @ lit ''step2'' @ nl @ nl @ lit ''step3'')\<rparr>) = 3"
    by (simp add: step_count_def get_or_def nl_def strip_def isspace_def)
  moreover have "index_entry parse (i, tc) ! 4 = lit ''- **Steps**: '' @ str_nat (step_count tc)"
    by (simp add: index_entry_def Let_def)
  moreover have "step_count (tc\<lparr>customSteps := None\<rparr>) = 0" "step_count (tc\<lparr>customSteps := Some []\<rparr>) = 0"
    by (simp_all add: step_count_def get_or_def)
  ultimately show ?thesis using step_count_eq [of tc] by (simp only: simp_thms)
qed

theorem C6_step_count_witness:
  "step_count rec_a = 3 \<and>
   length (filter (\<lambda>l. \<exists>c \<in> set l. \<not> isspace c) (split_on 10 (get_or (customSteps rec_a) []))) = 3 \<and>
   index_entry sample_parse (1, rec_a) ! 4 = lit ''- **Steps**: 3''"
proof -
  have "rec_a\<lparr>customSteps := Some (lit ''step1'' @ nl @ lit ''step2'' @ nl @ nl @ lit ''step3'')\<rparr> = rec_a"
    by (simp add: rec_a_def)
  with C6_step_count [of rec_a sample_parse 1] have
    a: "step_count rec_a = 3" and
    b: "step_count rec_a = length (filter (\<lambda>l. \<exists>c \<in> set l. \<not> isspace c) (split_on 10 (get_or (customSteps rec_a) [])))" and
    c: "index_entry sample_parse (1, rec_a) ! 4 = lit ''- **Steps**: '' @ str_nat (step_count rec_a)"
    by simp_all
  from a b c show ?thesis by (simp add: str_nat.simps)
qed

text \<open>
  C7. When the input file is missing or is not JSON, the run prints one diagnostic and
  ends with exit status 1; the output directory is left as it was, neither created nor
  changed.
\<close>

end
